theory Spec2Isabelle
  imports Main
begin

section \<open>Data model of the explorer viewer\<close>

text \<open>
  The file under verification is
  \<^verbatim>\<open>src/vs/workbench/parts/files/electron-browser/views/explorerViewer.ts\<close>.
  It reads a resource through two observations only, \<^verbatim>\<open>uri.path\<close> and
  \<^verbatim>\<open>uri.toString()\<close>; a \<open>URI\<close> is the record of these two.
\<close>

record URI =
  path :: string
  toString :: string

text \<open>
  An \<open>ExplorerItem\<close> is an object with references to its root and its parent. The
  viewer follows them in two places only, \<^verbatim>\<open>stat.root.resource\<close> and
  \<^verbatim>\<open>stat.parent.getChild(name)\<close>; the record holds what these navigations yield
  (\<open>parentGetChild n\<close> tells whether \<^verbatim>\<open>stat.parent.getChild(n)\<close> is defined).
  The modification time is a millisecond time stamp.
\<close>

record ExplorerItem =
  resource :: URI
  name :: string
  isDirectory :: bool
  isRoot :: bool
  mtime :: int
  rootResource :: URI
  parentGetChild :: "string \<Rightarrow> bool"

text \<open>The argument type \<^verbatim>\<open>ExplorerItem | ExplorerItem[]\<close> of the data source.\<close>

datatype Element = Roots "ExplorerItem list" | Item ExplorerItem

text \<open>\<^verbatim>\<open>const enum TreeVisibility { Hidden, Visible, Recurse }\<close>\<close>

datatype TreeVisibility = Hidden | Visible | Recurse

text \<open>
  JavaScript truthiness of a value of type \<^verbatim>\<open>string | null\<close>: \<^verbatim>\<open>null\<close> and the
  empty string are falsy.
\<close>

definition truthy :: "string option \<Rightarrow> bool" where
  "truthy r = (case r of None \<Rightarrow> False | Some s \<Rightarrow> s \<noteq> [])"

text \<open>
  \<^verbatim>\<open>IEditableData\<close>: the validation function of an edit session. Its completion
  callback \<^verbatim>\<open>onFinish\<close> is an effect; the edit session below records every call of it.
\<close>

record IEditableData =
  validationMessage :: "string \<Rightarrow> string option"

section \<open>ExplorerDataSource\<close>

text \<open>
  \<^verbatim>\<open>hasChildren(element) { return Array.isArray(element) || element.isDirectory; }\<close>
\<close>

definition hasChildren :: "Element \<Rightarrow> bool" where
  "hasChildren element =
     ((case element of Roots _ \<Rightarrow> True | Item _ \<Rightarrow> False) \<or>
      (case element of Roots _ \<Rightarrow> False | Item stat \<Rightarrow> isDirectory stat))"

text \<open>
  A settled promise. The services the data source talks to are effects: the record
  \<open>DataSourceEffects\<close> lists the errors handed to \<^verbatim>\<open>notificationService.error\<close> and
  the delays handed to \<^verbatim>\<open>progressService.showWhile\<close>, oldest first.
\<close>

datatype ('e, 'a) Promise = Rejected 'e | Resolved 'a

record 'e DataSourceEffects =
  notifications :: "'e list"
  progressDelays :: "nat list"

text \<open>
  \<open>getChildren\<close>: \<open>fetchChildren\<close> is the outcome of \<^verbatim>\<open>element.fetchChildren(fileService)\<close>
  and \<open>isRestored\<close> the answer of \<^verbatim>\<open>partService.isRestored()\<close>. The rejection handler
  of \<^verbatim>\<open>then(undefined, e => ...)\<close> notifies unless the element is a root and returns \<^verbatim>\<open>[]\<close>,
  so the derived promise is fulfilled; a fulfilled fetch passes through.
\<close>

definition getChildren ::
  "(ExplorerItem \<Rightarrow> ('e, ExplorerItem list) Promise) \<Rightarrow> bool \<Rightarrow> Element \<Rightarrow>
   'e DataSourceEffects \<Rightarrow> ('e, ExplorerItem list) Promise \<times> 'e DataSourceEffects" where
  "getChildren fetchChildren isRestored element fx =
     (case element of
        Roots roots \<Rightarrow> (Resolved roots, fx)
      | Item stat \<Rightarrow>
          (let fx1 = fx\<lparr>progressDelays := progressDelays fx @ [if isRestored then 800 else 3200]\<rparr>
           in case fetchChildren stat of
                Resolved children \<Rightarrow> (Resolved children, fx1)
              | Rejected e \<Rightarrow>
                  (Resolved [],
                   if \<not> isRoot stat
                   then fx1\<lparr>notifications := notifications fx1 @ [e]\<rparr>
                   else fx1)))"

section \<open>FilesFilter\<close>

text \<open>
  \<^verbatim>\<open>glob.ParsedExpression\<close>: called with a path, a base name and a sibling probe, it
  answers the matching pattern or \<^verbatim>\<open>null\<close>. The expression type \<^verbatim>\<open>glob.IExpression\<close>
  is declared outside this file and stays a type parameter \<open>'x\<close>.
\<close>

type_synonym ParsedExpression = "string \<Rightarrow> string \<Rightarrow> (string \<Rightarrow> bool) \<Rightarrow> string option"

record 'x CachedParsedExpression =
  original :: 'x
  parsed :: ParsedExpression

record IWorkspaceFolder =
  uri :: URI
  index :: int

text \<open>
  \<^verbatim>\<open>IFilesConfiguration\<close>, as far as \<^verbatim>\<open>configuration.files.exclude\<close> reads it; each
  level may be missing.
\<close>

record 'x FilesSection =
  exclude :: "'x option"

record 'x IFilesConfiguration =
  files :: "'x FilesSection option"

text \<open>
  The functions \<open>FilesFilter\<close> imports from other modules: \<^verbatim>\<open>glob.parse\<close>,
  \<^verbatim>\<open>equals\<close> and \<^verbatim>\<open>deepClone\<close> of \<^verbatim>\<open>vs/base/common/objects\<close>, the empty
  object \<^verbatim>\<open>Object.create(null)\<close>, \<^verbatim>\<open>normalize\<close> of \<^verbatim>\<open>vs/base/common/paths\<close> and
  \<^verbatim>\<open>path.relative\<close>. They are parameters of the model.
\<close>

record 'x FilterImports =
  globParse :: "'x \<Rightarrow> ParsedExpression"
  equals :: "'x \<Rightarrow> 'x \<Rightarrow> bool"
  deepClone :: "'x \<Rightarrow> 'x"
  emptyExpression :: 'x
  normalize :: "string \<Rightarrow> bool \<Rightarrow> string"
  relative :: "string \<Rightarrow> string \<Rightarrow> string"

text \<open>
  The filter object: its private map \<^verbatim>\<open>hiddenExpressionPerRoot\<close> and what its three
  injected services answer (\<^verbatim>\<open>contextService.getWorkspace().folders\<close>,
  \<^verbatim>\<open>configurationService.getValue({ resource })\<close>, \<^verbatim>\<open>explorerService.getEditableData\<close>).
\<close>

record 'x FilesFilter =
  hiddenExpressionPerRoot :: "string \<rightharpoonup> 'x CachedParsedExpression"
  folders :: "IWorkspaceFolder list"
  getValue :: "URI \<Rightarrow> 'x IFilesConfiguration option"
  getEditableData :: "ExplorerItem \<Rightarrow> IEditableData option"

text \<open>
  \<^verbatim>\<open>(configuration && configuration.files && configuration.files.exclude) || Object.create(null)\<close>
\<close>

definition excludesConfig :: "'x FilterImports \<Rightarrow> 'x FilesFilter \<Rightarrow> IWorkspaceFolder \<Rightarrow> 'x" where
  "excludesConfig imp this folder =
     (case getValue this (uri folder) of
        None \<Rightarrow> emptyExpression imp
      | Some configuration \<Rightarrow>
          (case files configuration of
             None \<Rightarrow> emptyExpression imp
           | Some fs \<Rightarrow>
               (case exclude fs of
                  None \<Rightarrow> emptyExpression imp
                | Some e \<Rightarrow> e)))"

text \<open>
  The body of the \<^verbatim>\<open>forEach\<close> callback of \<open>updateConfiguration\<close>, on the pair of the
  local \<^verbatim>\<open>needsRefresh\<close> and the map.
\<close>

definition updateFolder ::
  "'x FilterImports \<Rightarrow> 'x FilesFilter \<Rightarrow> IWorkspaceFolder \<Rightarrow>
   bool \<times> (string \<rightharpoonup> 'x CachedParsedExpression) \<Rightarrow>
   bool \<times> (string \<rightharpoonup> 'x CachedParsedExpression)" where
  "updateFolder imp this folder st =
     (let needsRefresh = fst st;
          cache = snd st;
          cfg = excludesConfig imp this folder;
          needsRefresh' =
            (if \<not> needsRefresh
             then (case cache (toString (uri folder)) of
                     None \<Rightarrow> True
                   | Some cached \<Rightarrow> \<not> equals imp (original cached) cfg)
             else needsRefresh);
          excludesConfigCopy = deepClone imp cfg
      in (needsRefresh',
          cache(toString (uri folder) \<mapsto>
            \<lparr>original = excludesConfigCopy, parsed = globParse imp excludesConfigCopy\<rparr>)))"

definition updateConfiguration :: "'x FilterImports \<Rightarrow> 'x FilesFilter \<Rightarrow> bool \<times> 'x FilesFilter" where
  "updateConfiguration imp this =
     (let st = fold (updateFolder imp this) (folders this) (False, hiddenExpressionPerRoot this)
      in (fst st, this\<lparr>hiddenExpressionPerRoot := snd st\<rparr>))"

text \<open>
  One call of a compiled matcher, as the filter makes it: the key of the cache entry whose
  matcher is called and the three arguments.
\<close>

record GlobCall =
  callRoot :: string
  callPath :: string
  callBasename :: string
  callHasSibling :: "string \<Rightarrow> bool"

text \<open>
  \<open>filter\<close>. The result is \<^verbatim>\<open>true\<close> for visible and \<^verbatim>\<open>false\<close> for hidden; the second
  component lists the matcher calls made on the way.
\<close>

definition filter' ::
  "'x FilterImports \<Rightarrow> 'x FilesFilter \<Rightarrow> ExplorerItem \<Rightarrow> TreeVisibility \<Rightarrow> bool \<times> GlobCall list" where
  "filter' imp this stat parentVisibility =
     (if parentVisibility = Hidden then (False, [])
      else if getEditableData this stat \<noteq> None \<or> isRoot stat then (True, [])
      else
        (case hiddenExpressionPerRoot this (toString (rootResource stat)) of
           None \<Rightarrow> (True, [])
         | Some cached \<Rightarrow>
             (let p = normalize imp (relative imp (path (rootResource stat)) (path (resource stat))) True;
                  call = \<lparr>callRoot = toString (rootResource stat), callPath = p,
                          callBasename = name stat, callHasSibling = (\<lambda>n. parentGetChild stat n)\<rparr>
              in if truthy (parsed cached p (name stat) (\<lambda>n. parentGetChild stat n))
                 then (False, [call])
                 else (True, [call]))))"

section \<open>FileSorter\<close>

text \<open>
  The sort order is the string \<^verbatim>\<open>explorerService.sortOrder\<close>, one of
  \<^verbatim>\<open>'default'\<close>, \<^verbatim>\<open>'mixed'\<close>, \<^verbatim>\<open>'filesFirst'\<close>, \<^verbatim>\<open>'type'\<close> and \<^verbatim>\<open>'modified'\<close>.
\<close>

datatype SortOrder = SortDefault | SortMixed | SortFilesFirst | SortType | SortModified

text \<open>
  The sorter object: the sort order and what \<^verbatim>\<open>contextService.getWorkspaceFolder\<close>
  answers (a folder or \<^verbatim>\<open>null\<close>). The two comparators of
  \<^verbatim>\<open>vs/base/common/comparers\<close> are parameters.
\<close>

record FileSorter =
  sortOrder :: SortOrder
  getWorkspaceFolder :: "URI \<Rightarrow> IWorkspaceFolder option"

record SorterImports =
  compareFileNames :: "string \<Rightarrow> string \<Rightarrow> int"
  compareFileExtensions :: "string \<Rightarrow> string \<Rightarrow> int"

text \<open>Reading \<^verbatim>\<open>.index\<close> of \<^verbatim>\<open>null\<close> throws.\<close>

datatype Error = TypeError

text \<open>
  The first \<^verbatim>\<open>switch\<close> of \<open>compare\<close> (``Sort Directories''): \<open>Some r\<close> is
  \<^verbatim>\<open>return r\<close>, \<open>None\<close> is \<^verbatim>\<open>break\<close>.
\<close>

definition sortDirectories ::
  "SorterImports \<Rightarrow> SortOrder \<Rightarrow> ExplorerItem \<Rightarrow> ExplorerItem \<Rightarrow> int option" where
  "sortDirectories imp order statA statB =
     (case order of
        SortType \<Rightarrow>
          (if isDirectory statA \<and> \<not> isDirectory statB then Some (- 1)
           else if isDirectory statB \<and> \<not> isDirectory statA then Some 1
           else if isDirectory statA \<and> isDirectory statB
                then Some (compareFileNames imp (name statA) (name statB))
           else None)
      | SortFilesFirst \<Rightarrow>
          (if isDirectory statA \<and> \<not> isDirectory statB then Some 1
           else if isDirectory statB \<and> \<not> isDirectory statA then Some (- 1)
           else None)
      | SortMixed \<Rightarrow> None
      | _ \<Rightarrow>
          (if isDirectory statA \<and> \<not> isDirectory statB then Some (- 1)
           else if isDirectory statB \<and> \<not> isDirectory statA then Some 1
           else None))"

text \<open>The second \<^verbatim>\<open>switch\<close> (``Sort Files'').\<close>

definition sortFiles :: "SorterImports \<Rightarrow> SortOrder \<Rightarrow> ExplorerItem \<Rightarrow> ExplorerItem \<Rightarrow> int" where
  "sortFiles imp order statA statB =
     (case order of
        SortType \<Rightarrow> compareFileExtensions imp (name statA) (name statB)
      | SortModified \<Rightarrow>
          (if mtime statA \<noteq> mtime statB
           then (if mtime statA < mtime statB then 1 else - 1)
           else compareFileNames imp (name statA) (name statB))
      | _ \<Rightarrow> compareFileNames imp (name statA) (name statB))"

definition compare ::
  "SorterImports \<Rightarrow> FileSorter \<Rightarrow> ExplorerItem \<Rightarrow> ExplorerItem \<Rightarrow> Error + int" where
  "compare imp this statA statB =
     (if isRoot statA then
        (if isRoot statB then
           (case getWorkspaceFolder this (resource statA) of
              None \<Rightarrow> Inl TypeError
            | Some folderA \<Rightarrow>
                (case getWorkspaceFolder this (resource statB) of
                   None \<Rightarrow> Inl TypeError
                 | Some folderB \<Rightarrow> Inr (index folderA - index folderB)))
         else Inr (- 1))
      else if isRoot statB then Inr 1
      else
        (case sortDirectories imp (sortOrder this) statA statB of
           Some r \<Rightarrow> Inr r
         | None \<Rightarrow> Inr (sortFiles imp (sortOrder this) statA statB)))"

section \<open>FilesRenderer: the edit session of renderInputBox\<close>

text \<open>
  \<open>renderInputBox\<close> builds an input box, two DOM listeners, a label and a styler, and
  the continuation \<^verbatim>\<open>done\<close>. What happens afterwards is driven by events. The session
  state holds the flag of the \<^verbatim>\<open>once\<close> wrapper, the text of the input box, the state of
  the label element, the disposables released so far (in order) and the calls of
  \<^verbatim>\<open>editableData.onFinish(value, success)\<close> made so far (in order). Icon, selection and
  styling are cosmetic and left out.
\<close>

datatype Disposable = InputBoxD | KeyDownListenerD | BlurListenerD | LabelD | StylerD

record EditSession =
  didCall :: bool
  inputValue :: string
  labelHidden :: bool
  labelAttached :: bool
  disposed :: "Disposable list"
  finished :: "(string \<times> bool) list"

text \<open>\<^verbatim>\<open>const toDispose = [inputBox, <keydown listener>, <blur listener>, label, styler]\<close>\<close>

definition toDispose :: "Disposable list" where
  "toDispose = [InputBoxD, KeyDownListenerD, BlurListenerD, LabelD, StylerD]"

text \<open>The session right after \<open>renderInputBox\<close> returns: \<^verbatim>\<open>inputBox.value = stat.name || ''\<close>.\<close>

definition renderInputBox :: "ExplorerItem \<Rightarrow> EditSession" where
  "renderInputBox stat =
     \<lparr>didCall = False, inputValue = name stat, labelHidden = False, labelAttached = True,
      disposed = [], finished = []\<rparr>"

text \<open>
  Modelled from the spec: \<^verbatim>\<open>once\<close> of \<^verbatim>\<open>vs/base/common/functional\<close>, which is not
  part of this file. The spec calls it a once-guard that makes completion idempotent: the
  wrapped function runs on the first call, and later calls do nothing.
\<close>

definition once :: "('a \<Rightarrow> EditSession \<Rightarrow> EditSession) \<Rightarrow> 'a \<Rightarrow> EditSession \<Rightarrow> EditSession" where
  "once fn args s = (if didCall s then s else fn args (s\<lparr>didCall := True\<rparr>))"

text \<open>
  The function wrapped by \<^verbatim>\<open>once\<close>: hide the label, read the value, dispose
  \<open>toDispose\<close>, detach the label element, call \<^verbatim>\<open>onFinish(value, success)\<close>.
\<close>

definition doneBody :: "bool \<times> bool \<Rightarrow> EditSession \<Rightarrow> EditSession" where
  "doneBody args s =
     (let success = fst args;
          s1 = s\<lparr>labelHidden := True\<rparr>;
          v = inputValue s1;
          s2 = s1\<lparr>disposed := disposed s1 @ toDispose\<rparr>;
          s3 = s2\<lparr>labelAttached := False\<rparr>
      in s3\<lparr>finished := finished s3 @ [(v, success)]\<rparr>)"

definition done' :: "bool \<Rightarrow> bool \<Rightarrow> EditSession \<Rightarrow> EditSession" where
  "done' success blur s = once doneBody (success, blur) s"

text \<open>
  The validation option handed to the input box: the message of
  \<^verbatim>\<open>editableData.validationMessage(value)\<close> as an error, or \<^verbatim>\<open>null\<close> when that is falsy.
\<close>

definition validation :: "IEditableData \<Rightarrow> string \<Rightarrow> string option" where
  "validation editableData v =
     (let content = validationMessage editableData v
      in if \<not> truthy content then None else content)"

text \<open>
  Modelled from the spec: \<^verbatim>\<open>InputBox.validate()\<close> and \<^verbatim>\<open>InputBox.isInputValid()\<close> of
  \<^verbatim>\<open>vs/base/browser/ui/inputbox/inputBox\<close>, which is not part of this file. The spec
  speaks of the input being ``currently valid'': the validation of the current text
  yields no message.
\<close>

definition validate :: "IEditableData \<Rightarrow> EditSession \<Rightarrow> bool" where
  "validate editableData s = (validation editableData (inputValue s) = None)"

definition isInputValid :: "IEditableData \<Rightarrow> EditSession \<Rightarrow> bool" where
  "isInputValid editableData s = (validation editableData (inputValue s) = None)"

datatype KeyCode = Enter | Escape | OtherKey

text \<open>The key-down listener and the blur listener.\<close>

definition onKeyDown :: "IEditableData \<Rightarrow> KeyCode \<Rightarrow> EditSession \<Rightarrow> EditSession" where
  "onKeyDown editableData e s =
     (if e = Enter then (if validate editableData s then done' True False s else s)
      else if e = Escape then done' False False s
      else s)"

definition onBlur :: "IEditableData \<Rightarrow> EditSession \<Rightarrow> EditSession" where
  "onBlur editableData s = done' (isInputValid editableData s) True s"

text \<open>
  What can happen to a session: a key goes down, the input loses focus, the user changes
  the text. \<open>run\<close> feeds a sequence of events to the listeners. The listeners are called
  for every event of the sequence, whether they have been disposed or not, so a sequence
  also covers several triggers arriving before the teardown has taken effect.
\<close>

datatype Event = KeyDown KeyCode | Blur | SetValue string

fun fire :: "IEditableData \<Rightarrow> Event \<Rightarrow> EditSession \<Rightarrow> EditSession" where
  "fire editableData (KeyDown e) s = onKeyDown editableData e s"
| "fire editableData Blur s = onBlur editableData s"
| "fire editableData (SetValue v) s = s\<lparr>inputValue := v\<rparr>"

definition run :: "IEditableData \<Rightarrow> Event list \<Rightarrow> EditSession \<Rightarrow> EditSession" where
  "run editableData events s = fold (fire editableData) events s"

section \<open>Predicates used in the statements\<close>

text \<open>
  A workspace root is stale for the filter when the map has no entry for it, or when
  \<^verbatim>\<open>equals\<close> tells the cached raw expression apart from the one the configuration
  holds now.
\<close>

definition stale :: "'x FilterImports \<Rightarrow> 'x FilesFilter \<Rightarrow> IWorkspaceFolder \<Rightarrow> bool" where
  "stale imp this folder =
     (case hiddenExpressionPerRoot this (toString (uri folder)) of
        None \<Rightarrow> True
      | Some cached \<Rightarrow> \<not> equals imp (original cached) (excludesConfig imp this folder))"

text \<open>
  The invariant of an edit session: before the first completion nothing is disposed and
  \<^verbatim>\<open>onFinish\<close> has not been called; from then on it has been called once and
  \<open>toDispose\<close> has been disposed once.
\<close>

definition settled :: "EditSession \<Rightarrow> bool" where
  "settled s =
     (if didCall s then length (finished s) = 1 \<and> disposed s = toDispose
      else finished s = [] \<and> disposed s = [])"

section \<open>Sample inputs\<close>

text \<open>
  A workspace with the roots \<^verbatim>\<open>/ws\<close> and \<^verbatim>\<open>/lib\<close>; under \<^verbatim>\<open>/ws\<close> the directories
  \<^verbatim>\<open>B\<close> and \<^verbatim>\<open>d\<close> and the files \<^verbatim>\<open>a\<close> and \<^verbatim>\<open>c.md\<close>. The theorems below are
  instantiated at these inputs.
\<close>

definition sampleUri :: "string \<Rightarrow> URI" where
  "sampleUri p = \<lparr>path = p, toString = ''file://'' @ p\<rparr>"

definition sampleItem :: "string \<Rightarrow> string \<Rightarrow> bool \<Rightarrow> int \<Rightarrow> ExplorerItem" where
  "sampleItem p n dir t =
     \<lparr>resource = sampleUri p, name = n, isDirectory = dir, isRoot = False, mtime = t,
      rootResource = sampleUri ''/ws'',
      parentGetChild = (\<lambda>c. c = ''B'' \<or> c = ''d'' \<or> c = ''a'' \<or> c = ''c.md'')\<rparr>"

definition sampleRoot :: "string \<Rightarrow> string \<Rightarrow> ExplorerItem" where
  "sampleRoot p n =
     \<lparr>resource = sampleUri p, name = n, isDirectory = True, isRoot = True, mtime = 0,
      rootResource = sampleUri p, parentGetChild = (\<lambda>c. False)\<rparr>"

definition sampleDirB :: ExplorerItem where
  "sampleDirB = sampleItem ''/ws/B'' ''B'' True 100"

definition sampleDirD :: ExplorerItem where
  "sampleDirD = sampleItem ''/ws/d'' ''d'' True 300"

definition sampleFileA :: ExplorerItem where
  "sampleFileA = sampleItem ''/ws/a'' ''a'' False 200"

definition sampleFileC :: ExplorerItem where
  "sampleFileC = sampleItem ''/ws/c.md'' ''c.md'' False 200"

definition sampleFolders :: "IWorkspaceFolder list" where
  "sampleFolders = [\<lparr>uri = sampleUri ''/ws'', index = 0\<rparr>, \<lparr>uri = sampleUri ''/lib'', index = 1\<rparr>]"

text \<open>
  Stand-ins for the imported functions: an expression is the list of its patterns, a
  pattern matches the path equal to it, comparison and copying are the structural ones,
  and the relative path drops the root's path and the separator.
\<close>

definition sampleFilterImports :: "string list FilterImports" where
  "sampleFilterImports =
     \<lparr>globParse = (\<lambda>e p b hasSibling. find (\<lambda>pat. pat = p) e),
      equals = (\<lambda>one other. one = other),
      deepClone = (\<lambda>e. e),
      emptyExpression = [],
      normalize = (\<lambda>p toOSPath. p),
      relative = (\<lambda>from to. drop (Suc (length from)) to)\<rparr>"

definition sampleEditable :: IEditableData where
  "sampleEditable =
     \<lparr>validationMessage = (\<lambda>v. if v = [] then Some ''A file or folder name must be provided.'' else None)\<rparr>"

text \<open>
  A filter whose map is empty, and one whose map holds the entry of \<^verbatim>\<open>/ws\<close> for the
  exclude expression \<^verbatim>\<open>{ "B": true }\<close>. The file \<^verbatim>\<open>c.md\<close> is being renamed.
\<close>

definition sampleFilterFresh :: "string list FilesFilter" where
  "sampleFilterFresh =
     \<lparr>hiddenExpressionPerRoot = Map.empty,
      folders = sampleFolders,
      getValue = (\<lambda>u. if path u = ''/ws'' then Some \<lparr>files = Some \<lparr>exclude = Some [''B'']\<rparr>\<rparr> else None),
      getEditableData = (\<lambda>stat. if name stat = ''c.md'' then Some sampleEditable else None)\<rparr>"

definition sampleFilter :: "string list FilesFilter" where
  "sampleFilter =
     sampleFilterFresh\<lparr>hiddenExpressionPerRoot :=
       [''file:///ws'' \<mapsto> \<lparr>original = [''B''], parsed = globParse sampleFilterImports [''B'']\<rparr>,
        ''file:///lib'' \<mapsto> \<lparr>original = [], parsed = globParse sampleFilterImports []\<rparr>]\<rparr>"

text \<open>
  Stand-ins for the comparators: names by the code points of their lower-cased
  characters, extensions by the same order on what follows the last dot.
\<close>

fun compareCodes :: "nat list \<Rightarrow> nat list \<Rightarrow> int" where
  "compareCodes [] [] = 0"
| "compareCodes [] (y # ys) = - 1"
| "compareCodes (x # xs) [] = 1"
| "compareCodes (x # xs) (y # ys) =
     (if x < y then - 1 else if y < x then 1 else compareCodes xs ys)"

definition lowerCode :: "char \<Rightarrow> nat" where
  "lowerCode c = (let n = of_char c in if 65 \<le> n \<and> n \<le> 90 then n + 32 else n)"

definition sampleExtension :: "string \<Rightarrow> string" where
  "sampleExtension n = (if CHR ''.'' \<in> set n then rev (takeWhile (\<lambda>c. c \<noteq> CHR ''.'') (rev n)) else [])"

definition sampleSorterImports :: SorterImports where
  "sampleSorterImports =
     \<lparr>compareFileNames = (\<lambda>one other. compareCodes (map lowerCode one) (map lowerCode other)),
      compareFileExtensions =
        (\<lambda>one other. compareCodes (map lowerCode (sampleExtension one))
                                  (map lowerCode (sampleExtension other)))\<rparr>"

definition sampleSorter :: "SortOrder \<Rightarrow> FileSorter" where
  "sampleSorter order =
     \<lparr>sortOrder = order,
      getWorkspaceFolder = (\<lambda>u. find (\<lambda>folder. toString (uri folder) = toString u) sampleFolders)\<rparr>"

text \<open>The defining equations of the sample inputs, for evaluating the instances.\<close>

lemmas sample_defs = sampleUri_def sampleItem_def sampleRoot_def sampleDirB_def sampleDirD_def
  sampleFileA_def sampleFileC_def sampleFolders_def sampleFilterImports_def sampleEditable_def
  sampleFilterFresh_def sampleFilter_def sampleSorterImports_def sampleSorter_def
  lowerCode_def sampleExtension_def

section \<open>Properties of ExplorerDataSource\<close>

text \<open>
  Claim C9. \<open>hasChildren\<close> is true exactly for a bare list of roots (an empty list
  included) and for a single item whose \<open>isDirectory\<close> flag is set; for a single item that
  is not a directory it is false.
\<close>

theorem hasChildren_iff:
  "hasChildren (Roots roots) \<and> hasChildren (Roots []) \<and>
   hasChildren (Item stat) = isDirectory stat \<and>
   hasChildren element = ((\<exists>rs. element = Roots rs) \<or> (\<exists>s. element = Item s \<and> isDirectory s))"
  by (cases element) (simp_all add: hasChildren_def)

text \<open>
  Claim C6. When the child fetch of a single item fails, the promise \<open>getChildren\<close> returns
  is fulfilled with the empty list; the failure is handed to the notification service
  exactly once when the item is not a root and not at all when it is a root.
\<close>

theorem getChildren_fetch_fails:
  assumes "fetchChildren stat = Rejected e"
  shows "fst (getChildren fetchChildren isRestored (Item stat) fx) = Resolved [] \<and>
         notifications (snd (getChildren fetchChildren isRestored (Item stat) fx)) =
           notifications fx @ (if isRoot stat then [] else [e])"
  using assms by (simp add: getChildren_def Let_def)

text \<open>A failed fetch below the directory \<^verbatim>\<open>B\<close>, and one below the root \<^verbatim>\<open>/ws\<close>.\<close>

theorem getChildren_fetch_fails_witness:
  "fst (getChildren (\<lambda>stat. Rejected ''EACCES'') True (Item sampleDirB)
          \<lparr>notifications = [], progressDelays = []\<rparr>) = Resolved [] \<and>
   notifications (snd (getChildren (\<lambda>stat. Rejected ''EACCES'') True (Item sampleDirB)
          \<lparr>notifications = [], progressDelays = []\<rparr>)) = [''EACCES''] \<and>
   fst (getChildren (\<lambda>stat. Rejected ''EACCES'') False (Item (sampleRoot ''/ws'' ''ws''))
          \<lparr>notifications = [], progressDelays = []\<rparr>) = Resolved [] \<and>
   notifications (snd (getChildren (\<lambda>stat. Rejected ''EACCES'') False (Item (sampleRoot ''/ws'' ''ws''))
          \<lparr>notifications = [], progressDelays = []\<rparr>)) = []"
  using getChildren_fetch_fails [of "\<lambda>stat. Rejected ''EACCES''" sampleDirB "''EACCES''" True
      "\<lparr>notifications = [], progressDelays = []\<rparr>"]
    getChildren_fetch_fails [of "\<lambda>stat. Rejected ''EACCES''" "sampleRoot ''/ws'' ''ws''" "''EACCES''" False
      "\<lparr>notifications = [], progressDelays = []\<rparr>"]
  by (simp add: sample_defs)

section \<open>Properties of FilesFilter\<close>

text \<open>
  Claim C1. The filtering rule, top-down. Under a hidden parent the item is hidden and no
  matcher is called. Otherwise an item with an editable-data record, and a root, is
  visible, again with no matcher called. Otherwise the item is hidden exactly when the map
  has an entry for its root whose compiled matcher accepts the normalized root-relative
  path; the matcher is then called once, with that path, the item's name and the probe
  for siblings of the item, and it is not called when the map has no entry.
\<close>

theorem filter_rule:
  "(parentVisibility = Hidden \<longrightarrow> filter' imp this stat parentVisibility = (False, [])) \<and>
   (parentVisibility \<noteq> Hidden \<and> (getEditableData this stat \<noteq> None \<or> isRoot stat) \<longrightarrow>
      filter' imp this stat parentVisibility = (True, [])) \<and>
   (parentVisibility \<noteq> Hidden \<and> getEditableData this stat = None \<and> \<not> isRoot stat \<longrightarrow>
      (\<not> fst (filter' imp this stat parentVisibility)) =
        (\<exists>cached. hiddenExpressionPerRoot this (toString (rootResource stat)) = Some cached \<and>
           truthy (parsed cached
             (normalize imp (relative imp (path (rootResource stat)) (path (resource stat))) True)
             (name stat) (parentGetChild stat))) \<and>
      snd (filter' imp this stat parentVisibility) =
        (case hiddenExpressionPerRoot this (toString (rootResource stat)) of
           None \<Rightarrow> []
         | Some cached \<Rightarrow>
             [\<lparr>callRoot = toString (rootResource stat),
               callPath = normalize imp (relative imp (path (rootResource stat)) (path (resource stat))) True,
               callBasename = name stat,
               callHasSibling = parentGetChild stat\<rparr>]))"
  by (auto simp: filter'_def Let_def split: option.splits)

text \<open>
  The rule at the sample workspace: \<^verbatim>\<open>B\<close> is excluded, \<^verbatim>\<open>a\<close> is not, \<^verbatim>\<open>c.md\<close> is being
  renamed.
\<close>

theorem filter_rule_witness:
  "filter' sampleFilterImports sampleFilter sampleDirB Hidden = (False, []) \<and>
   filter' sampleFilterImports sampleFilter sampleFileC Visible = (True, []) \<and>
   filter' sampleFilterImports sampleFilter (sampleRoot ''/ws'' ''ws'') Recurse = (True, []) \<and>
   \<not> fst (filter' sampleFilterImports sampleFilter sampleDirB Visible) \<and>
   map callPath (snd (filter' sampleFilterImports sampleFilter sampleDirB Visible)) = [''B''] \<and>
   map callBasename (snd (filter' sampleFilterImports sampleFilter sampleDirB Visible)) = [''B''] \<and>
   fst (filter' sampleFilterImports sampleFilter sampleFileA Visible) \<and>
   fst (filter' sampleFilterImports sampleFilterFresh sampleFileA Visible) \<and>
   snd (filter' sampleFilterImports sampleFilterFresh sampleFileA Visible) = []"
  using filter_rule [of Hidden sampleFilterImports sampleFilter sampleDirB]
    filter_rule [of Visible sampleFilterImports sampleFilter sampleFileC]
    filter_rule [of Recurse sampleFilterImports sampleFilter "sampleRoot ''/ws'' ''ws''"]
    filter_rule [of Visible sampleFilterImports sampleFilter sampleDirB]
    filter_rule [of Visible sampleFilterImports sampleFilter sampleFileA]
    filter_rule [of Visible sampleFilterImports sampleFilterFresh sampleFileA]
  by (simp add: sample_defs truthy_def)

text \<open>
  Claim C10, as amended. For an item that is not a root and has no editable-data record,
  and whose root has no entry in the map, the filter calls no matcher and reports the item
  visible whenever the parent's visibility is not \<open>Hidden\<close>; under a hidden parent the
  item is hidden, as every item is.
\<close>

theorem filter_without_cache_entry:
  assumes "\<not> isRoot stat" and "getEditableData this stat = None"
    and "hiddenExpressionPerRoot this (toString (rootResource stat)) = None"
  shows "fst (filter' imp this stat parentVisibility) = (parentVisibility \<noteq> Hidden) \<and>
         snd (filter' imp this stat parentVisibility) = []"
  using assms by (simp add: filter'_def)

text \<open>The file \<^verbatim>\<open>a\<close> before the map has any entry, below a visible parent.\<close>

theorem filter_without_cache_entry_witness:
  "\<not> isRoot sampleFileA \<and> getEditableData sampleFilterFresh sampleFileA = None \<and>
   hiddenExpressionPerRoot sampleFilterFresh (toString (rootResource sampleFileA)) = None \<and>
   fst (filter' sampleFilterImports sampleFilterFresh sampleFileA Visible) \<and>
   snd (filter' sampleFilterImports sampleFilterFresh sampleFileA Visible) = []"
  using filter_without_cache_entry [of sampleFileA sampleFilterFresh sampleFilterImports Visible]
  by (simp add: sample_defs)

text \<open>
  The same file below a hidden parent: it is not a root, has no editable-data record and
  its root has no entry in the map, and yet it is reported hidden.
\<close>

theorem filter_without_cache_entry_counterexample:
  "\<not> isRoot sampleFileA \<and> getEditableData sampleFilterFresh sampleFileA = None \<and>
   hiddenExpressionPerRoot sampleFilterFresh (toString (rootResource sampleFileA)) = None \<and>
   \<not> fst (filter' sampleFilterImports sampleFilterFresh sampleFileA Hidden)"
  by (simp add: sample_defs filter'_def)

subsection \<open>The loop of updateConfiguration\<close>

lemma excludesConfig_cache [simp]:
  "excludesConfig imp (this\<lparr>hiddenExpressionPerRoot := c\<rparr>) folder = excludesConfig imp this folder"
  by (simp add: excludesConfig_def)

lemma updateFolder_step:
  "updateFolder imp this folder (nr, c) =
     (nr \<or> stale imp (this\<lparr>hiddenExpressionPerRoot := c\<rparr>) folder,
      c(toString (uri folder) \<mapsto>
         \<lparr>original = deepClone imp (excludesConfig imp this folder),
          parsed = globParse imp (deepClone imp (excludesConfig imp this folder))\<rparr>))"
  by (auto simp: updateFolder_def stale_def Let_def split: option.splits)

lemma stale_upd_other:
  "toString (uri g) \<noteq> k \<Longrightarrow>
   stale imp (this\<lparr>hiddenExpressionPerRoot := c(k \<mapsto> v)\<rparr>) g =
   stale imp (this\<lparr>hiddenExpressionPerRoot := c\<rparr>) g"
  by (simp add: stale_def split: option.splits)

text \<open>The flag after the loop, for roots with pairwise different identifiers.\<close>

lemma fold_updateFolder_flag:
  "distinct (map (\<lambda>f. toString (uri f)) fs) \<Longrightarrow>
   fst (fold (updateFolder imp this) fs (nr, c)) =
     (nr \<or> (\<exists>f \<in> set fs. stale imp (this\<lparr>hiddenExpressionPerRoot := c\<rparr>) f))"
proof (induction fs arbitrary: nr c)
  case Nil
  then show ?case by simp
next
  case (Cons f fs)
  have notin: "toString (uri f) \<notin> (\<lambda>f. toString (uri f)) ` set fs"
    using Cons.prems by simp
  have other: "toString (uri g) \<noteq> toString (uri f)" if "g \<in> set fs" for g
  proof
    assume "toString (uri g) = toString (uri f)"
    with that have "toString (uri f) \<in> (\<lambda>f. toString (uri f)) ` set fs"
      by (metis imageI)
    with notin show False by contradiction
  qed
  have d: "distinct (map (\<lambda>f. toString (uri f)) fs)"
    using Cons.prems by simp
  let ?k = "toString (uri f)"
  let ?e = "\<lparr>original = deepClone imp (excludesConfig imp this f),
             parsed = globParse imp (deepClone imp (excludesConfig imp this f))\<rparr>"
  let ?nr = "nr \<or> stale imp (this\<lparr>hiddenExpressionPerRoot := c\<rparr>) f"
  have step: "fold (updateFolder imp this) (f # fs) (nr, c) =
              fold (updateFolder imp this) fs (?nr, c(?k \<mapsto> ?e))"
    by (simp add: updateFolder_step)
  have same: "(\<exists>g \<in> set fs. stale imp (this\<lparr>hiddenExpressionPerRoot := c(?k \<mapsto> ?e)\<rparr>) g) =
              (\<exists>g \<in> set fs. stale imp (this\<lparr>hiddenExpressionPerRoot := c\<rparr>) g)"
    using other stale_upd_other [where k = ?k and v = ?e and c = c and imp = imp and this = this]
    by blast
  have "fst (fold (updateFolder imp this) fs (?nr, c(?k \<mapsto> ?e))) =
        (?nr \<or> (\<exists>g \<in> set fs. stale imp (this\<lparr>hiddenExpressionPerRoot := c(?k \<mapsto> ?e)\<rparr>) g))"
    by (rule Cons.IH [OF d])
  with step same show ?case
    by (simp del: fun_upd_apply)
qed

text \<open>The loop writes the entries of the roots it visits and no other.\<close>

lemma fold_updateFolder_other:
  "k \<notin> (\<lambda>f. toString (uri f)) ` set fs \<Longrightarrow>
   snd (fold (updateFolder imp this) fs (nr, c)) k = c k"
  by (induction fs arbitrary: nr c) (auto simp: updateFolder_step)

lemma fold_updateFolder_entry:
  "distinct (map (\<lambda>f. toString (uri f)) fs) \<Longrightarrow> f \<in> set fs \<Longrightarrow>
   snd (fold (updateFolder imp this) fs (nr, c)) (toString (uri f)) =
     Some \<lparr>original = deepClone imp (excludesConfig imp this f),
           parsed = globParse imp (deepClone imp (excludesConfig imp this f))\<rparr>"
proof (induction fs arbitrary: nr c)
  case Nil
  then show ?case by simp
next
  case (Cons g fs)
  show ?case
  proof (cases "f \<in> set fs")
    case True
    with Cons show ?thesis by (simp add: updateFolder_step)
  next
    case False
    with Cons.prems have fg: "f = g" by simp
    have "toString (uri g) \<notin> (\<lambda>f. toString (uri f)) ` set fs"
      using Cons.prems(1) by auto
    then show ?thesis
      by (simp add: fg updateFolder_step fold_updateFolder_other)
  qed
qed

text \<open>
  Claim C2. For a workspace whose roots have pairwise different identifiers,
  \<open>updateConfiguration\<close> answers true exactly when some root is stale with respect to the
  map as it was before the call: the map had no entry for it, or \<^verbatim>\<open>equals\<close> tells its
  cached raw expression apart from the one just read. Whatever the answer, the map
  afterwards holds for every root the copy \<^verbatim>\<open>deepClone\<close> made of the raw expression just
  read, together with the matcher \<^verbatim>\<open>glob.parse\<close> compiled from that copy.
\<close>

theorem updateConfiguration_flag_and_cache:
  assumes "distinct (map (\<lambda>f. toString (uri f)) (folders this))"
  shows "fst (updateConfiguration imp this) = (\<exists>f \<in> set (folders this). stale imp this f) \<and>
         (\<forall>f \<in> set (folders this).
            hiddenExpressionPerRoot (snd (updateConfiguration imp this)) (toString (uri f)) =
              Some \<lparr>original = deepClone imp (excludesConfig imp this f),
                    parsed = globParse imp (deepClone imp (excludesConfig imp this f))\<rparr>)"
  using fold_updateFolder_flag [OF assms, of imp this False "hiddenExpressionPerRoot this"]
    fold_updateFolder_entry [OF assms, of _ imp this False "hiddenExpressionPerRoot this"]
  by (simp add: updateConfiguration_def Let_def)

text \<open>
  The first call (empty map), a call that finds every expression unchanged, and a call
  after the configuration of the roots has changed.
\<close>

theorem updateConfiguration_flag_and_cache_witness:
  "distinct (map (\<lambda>f. toString (uri f)) (folders sampleFilterFresh)) \<and>
   fst (updateConfiguration sampleFilterImports sampleFilterFresh) \<and>
   distinct (map (\<lambda>f. toString (uri f)) (folders sampleFilter)) \<and>
   \<not> fst (updateConfiguration sampleFilterImports sampleFilter) \<and>
   fst (updateConfiguration sampleFilterImports
          (sampleFilter\<lparr>getValue := \<lambda>u. Some \<lparr>files = Some \<lparr>exclude = Some [''d'']\<rparr>\<rparr>\<rparr>)) \<and>
   hiddenExpressionPerRoot (snd (updateConfiguration sampleFilterImports sampleFilterFresh)) ''file:///ws'' =
     Some \<lparr>original = [''B''], parsed = globParse sampleFilterImports [''B'']\<rparr> \<and>
   hiddenExpressionPerRoot (snd (updateConfiguration sampleFilterImports sampleFilterFresh)) ''file:///lib'' =
     Some \<lparr>original = [], parsed = globParse sampleFilterImports []\<rparr>"
proof -
  let ?changed = "sampleFilter\<lparr>getValue := \<lambda>u. Some \<lparr>files = Some \<lparr>exclude = Some [''d'']\<rparr>\<rparr>\<rparr>"
  let ?ws = "\<lparr>uri = sampleUri ''/ws'', index = 0\<rparr>"
  let ?lib = "\<lparr>uri = sampleUri ''/lib'', index = 1\<rparr>"
  have d1: "distinct (map (\<lambda>f. toString (uri f)) (folders sampleFilterFresh))"
    by (simp add: sampleFilterFresh_def sampleFolders_def sampleUri_def)
  have d2: "distinct (map (\<lambda>f. toString (uri f)) (folders sampleFilter))"
    by (simp add: sampleFilter_def sampleFilterFresh_def sampleFolders_def sampleUri_def)
  have d3: "distinct (map (\<lambda>f. toString (uri f)) (folders ?changed))"
    by (simp add: sampleFilter_def sampleFilterFresh_def sampleFolders_def sampleUri_def)
  have s1: "stale sampleFilterImports sampleFilterFresh ?ws"
    by (simp add: stale_def sampleFilterFresh_def)
  have s2: "\<not> stale sampleFilterImports sampleFilter ?ws"
    by (simp add: stale_def excludesConfig_def sampleFilter_def sampleFilterFresh_def
        sampleFilterImports_def sampleUri_def)
  have s2': "\<not> stale sampleFilterImports sampleFilter ?lib"
    by (simp add: stale_def excludesConfig_def sampleFilter_def sampleFilterFresh_def
        sampleFilterImports_def sampleUri_def)
  have s3: "stale sampleFilterImports ?changed ?ws"
    by (simp add: stale_def excludesConfig_def sampleFilter_def sampleFilterFresh_def
        sampleFilterImports_def sampleUri_def)
  have f1: "folders sampleFilterFresh = [?ws, ?lib]"
    by (simp add: sampleFilterFresh_def sampleFolders_def)
  have f2: "folders sampleFilter = [?ws, ?lib]"
    by (simp add: sampleFilter_def sampleFilterFresh_def sampleFolders_def)
  have f3: "folders ?changed = [?ws, ?lib]"
    by (simp add: sampleFilter_def sampleFilterFresh_def sampleFolders_def)
  have c1: "excludesConfig sampleFilterImports sampleFilterFresh ?ws = [''B'']"
    by (simp add: excludesConfig_def sampleFilterFresh_def sampleUri_def)
  have c2: "excludesConfig sampleFilterImports sampleFilterFresh ?lib = []"
    by (simp add: excludesConfig_def sampleFilterFresh_def sampleFilterImports_def sampleUri_def)
  have k: "toString (sampleUri ''/ws'') = ''file:///ws''" "toString (sampleUri ''/lib'') = ''file:///lib''"
    by (simp_all add: sampleUri_def)
  have cl: "deepClone sampleFilterImports = (\<lambda>e. e)"
    by (simp add: sampleFilterImports_def)
  note fresh = updateConfiguration_flag_and_cache [OF d1, of sampleFilterImports]
  note same = updateConfiguration_flag_and_cache [OF d2, of sampleFilterImports]
  note changed = updateConfiguration_flag_and_cache [OF d3, of sampleFilterImports]
  have r1: "fst (updateConfiguration sampleFilterImports sampleFilterFresh)"
    using fresh s1 by (simp add: f1)
  have r2: "\<not> fst (updateConfiguration sampleFilterImports sampleFilter)"
    using same s2 s2' by (simp add: f2)
  have r3: "fst (updateConfiguration sampleFilterImports ?changed)"
    using changed s3 by (simp add: f3)
  have e1: "hiddenExpressionPerRoot (snd (updateConfiguration sampleFilterImports sampleFilterFresh)) ''file:///ws'' =
     Some \<lparr>original = [''B''], parsed = globParse sampleFilterImports [''B'']\<rparr>"
    using fresh by (simp add: f1 k c1 cl)
  have e2: "hiddenExpressionPerRoot (snd (updateConfiguration sampleFilterImports sampleFilterFresh)) ''file:///lib'' =
     Some \<lparr>original = [], parsed = globParse sampleFilterImports []\<rparr>"
    using fresh by (simp add: f1 k c2 cl)
  from d1 d2 r1 r2 r3 e1 e2 show ?thesis by simp
qed

section \<open>Properties of FileSorter\<close>

text \<open>
  Claim C3. In every sort order: of two items of which exactly one is a root, the root
  sorts first (the result is \<open>-1\<close> when the root is the first argument and \<open>1\<close> when it is
  the second); for two roots that both have a workspace folder the result is the index of
  the first root's folder minus the index of the second's, so the root with the smaller
  index sorts first.
\<close>

theorem compare_roots:
  "(isRoot statA \<and> \<not> isRoot statB \<longrightarrow>
      compare imp (this\<lparr>sortOrder := order\<rparr>) statA statB = Inr (- 1)) \<and>
   (\<not> isRoot statA \<and> isRoot statB \<longrightarrow>
      compare imp (this\<lparr>sortOrder := order\<rparr>) statA statB = Inr 1) \<and>
   (isRoot statA \<and> isRoot statB \<and>
    getWorkspaceFolder this (resource statA) = Some folderA \<and>
    getWorkspaceFolder this (resource statB) = Some folderB \<longrightarrow>
      compare imp (this\<lparr>sortOrder := order\<rparr>) statA statB = Inr (index folderA - index folderB) \<and>
      (index folderA < index folderB \<longrightarrow>
         (\<exists>r < 0. compare imp (this\<lparr>sortOrder := order\<rparr>) statA statB = Inr r)))"
  by (simp add: compare_def)

text \<open>The roots \<^verbatim>\<open>/ws\<close> (index 0) and \<^verbatim>\<open>/lib\<close> (index 1) and the file \<^verbatim>\<open>a\<close>.\<close>

theorem compare_roots_witness:
  "compare sampleSorterImports (sampleSorter SortType) (sampleRoot ''/lib'' ''lib'') sampleFileA = Inr (- 1) \<and>
   compare sampleSorterImports (sampleSorter SortMixed) sampleFileA (sampleRoot ''/lib'' ''lib'') = Inr 1 \<and>
   compare sampleSorterImports (sampleSorter SortModified) (sampleRoot ''/ws'' ''ws'') (sampleRoot ''/lib'' ''lib'') = Inr (- 1) \<and>
   compare sampleSorterImports (sampleSorter SortFilesFirst) (sampleRoot ''/lib'' ''lib'') (sampleRoot ''/ws'' ''ws'') = Inr 1"
  using compare_roots [where statA = "sampleRoot ''/lib'' ''lib''" and statB = sampleFileA
      and imp = sampleSorterImports and this = "sampleSorter SortDefault" and order = SortType]
    compare_roots [where statA = sampleFileA and statB = "sampleRoot ''/lib'' ''lib''"
      and imp = sampleSorterImports and this = "sampleSorter SortDefault" and order = SortMixed]
    compare_roots [where statA = "sampleRoot ''/ws'' ''ws''" and statB = "sampleRoot ''/lib'' ''lib''"
      and imp = sampleSorterImports and this = "sampleSorter SortDefault" and order = SortModified
      and folderA = "\<lparr>uri = sampleUri ''/ws'', index = 0\<rparr>"
      and folderB = "\<lparr>uri = sampleUri ''/lib'', index = 1\<rparr>"]
    compare_roots [where statA = "sampleRoot ''/lib'' ''lib''" and statB = "sampleRoot ''/ws'' ''ws''"
      and imp = sampleSorterImports and this = "sampleSorter SortDefault" and order = SortFilesFirst
      and folderA = "\<lparr>uri = sampleUri ''/lib'', index = 1\<rparr>"
      and folderB = "\<lparr>uri = sampleUri ''/ws'', index = 0\<rparr>"]
  by (simp add: sample_defs)

text \<open>
  Claim C4. In the sort order \<^verbatim>\<open>'type'\<close>, for two items that are not roots: a directory
  sorts before a file; two directories compare as \<^verbatim>\<open>compareFileNames\<close> compares their
  names; two files compare as \<^verbatim>\<open>compareFileExtensions\<close> compares their names. So a
  directory named \<^verbatim>\<open>B\<close> sorts before a file named \<^verbatim>\<open>a\<close>, whatever the comparators say.
\<close>

theorem compare_type_mode:
  assumes "\<not> isRoot statA" and "\<not> isRoot statB" and "sortOrder this = SortType"
  shows "(isDirectory statA \<and> \<not> isDirectory statB \<longrightarrow> compare imp this statA statB = Inr (- 1)) \<and>
         (\<not> isDirectory statA \<and> isDirectory statB \<longrightarrow> compare imp this statA statB = Inr 1) \<and>
         (isDirectory statA \<and> isDirectory statB \<longrightarrow>
            compare imp this statA statB = Inr (compareFileNames imp (name statA) (name statB))) \<and>
         (\<not> isDirectory statA \<and> \<not> isDirectory statB \<longrightarrow>
            compare imp this statA statB = Inr (compareFileExtensions imp (name statA) (name statB))) \<and>
         (isDirectory statA \<and> name statA = ''B'' \<and> \<not> isDirectory statB \<and> name statB = ''a'' \<longrightarrow>
            (\<exists>r < 0. compare imp this statA statB = Inr r))"
  using assms by (simp add: compare_def sortDirectories_def sortFiles_def)

text \<open>
  The directory \<^verbatim>\<open>B\<close> and the file \<^verbatim>\<open>a\<close>, with a name comparator that puts
  \<^verbatim>\<open>a\<close> before \<^verbatim>\<open>B\<close>.
\<close>

theorem compare_type_mode_witness:
  "\<not> isRoot sampleDirB \<and> \<not> isRoot sampleFileA \<and> sortOrder (sampleSorter SortType) = SortType \<and>
   compareFileNames sampleSorterImports ''a'' ''B'' = - 1 \<and>
   compare sampleSorterImports (sampleSorter SortType) sampleDirB sampleFileA = Inr (- 1) \<and>
   compare sampleSorterImports (sampleSorter SortType) sampleFileA sampleDirB = Inr 1 \<and>
   compare sampleSorterImports (sampleSorter SortType) sampleDirD sampleDirB = Inr 1 \<and>
   compare sampleSorterImports (sampleSorter SortType) sampleFileC sampleFileA = Inr 1"
  using compare_type_mode [of sampleDirB sampleFileA "sampleSorter SortType" sampleSorterImports]
    compare_type_mode [of sampleFileA sampleDirB "sampleSorter SortType" sampleSorterImports]
    compare_type_mode [of sampleDirD sampleDirB "sampleSorter SortType" sampleSorterImports]
    compare_type_mode [of sampleFileC sampleFileA "sampleSorter SortType" sampleSorterImports]
  by (simp add: sample_defs)

text \<open>
  Claim C5. In the sort order \<^verbatim>\<open>'modified'\<close>, for two items that are not roots and are
  both directories or both files: the item modified later sorts first, and for equal
  modification times the result is what \<^verbatim>\<open>compareFileNames\<close> says of their names.
\<close>

theorem compare_modified_mode:
  assumes "\<not> isRoot statA" and "\<not> isRoot statB" and "sortOrder this = SortModified"
    and "isDirectory statA = isDirectory statB"
  shows "(mtime statB < mtime statA \<longrightarrow> compare imp this statA statB = Inr (- 1)) \<and>
         (mtime statA < mtime statB \<longrightarrow> compare imp this statA statB = Inr 1) \<and>
         (mtime statA = mtime statB \<longrightarrow>
            compare imp this statA statB = Inr (compareFileNames imp (name statA) (name statB)))"
  using assms by (simp add: compare_def sortDirectories_def sortFiles_def)

text \<open>
  The directories \<^verbatim>\<open>B\<close> (time 100) and \<^verbatim>\<open>d\<close> (time 300), and the files \<^verbatim>\<open>a\<close> and
  \<^verbatim>\<open>c.md\<close> (both time 200).
\<close>

theorem compare_modified_mode_witness:
  "\<not> isRoot sampleDirB \<and> \<not> isRoot sampleDirD \<and> sortOrder (sampleSorter SortModified) = SortModified \<and>
   isDirectory sampleDirB = isDirectory sampleDirD \<and> mtime sampleDirB < mtime sampleDirD \<and>
   compare sampleSorterImports (sampleSorter SortModified) sampleDirD sampleDirB = Inr (- 1) \<and>
   compare sampleSorterImports (sampleSorter SortModified) sampleDirB sampleDirD = Inr 1 \<and>
   mtime sampleFileA = mtime sampleFileC \<and>
   compare sampleSorterImports (sampleSorter SortModified) sampleFileA sampleFileC = Inr (- 1)"
  using compare_modified_mode [of sampleDirD sampleDirB "sampleSorter SortModified" sampleSorterImports]
    compare_modified_mode [of sampleDirB sampleDirD "sampleSorter SortModified" sampleSorterImports]
    compare_modified_mode [of sampleFileA sampleFileC "sampleSorter SortModified" sampleSorterImports]
  by (simp add: sample_defs)

section \<open>Properties of the edit session\<close>

lemma done'_first:
  "\<not> didCall s \<Longrightarrow>
   done' success blur s =
     s\<lparr>didCall := True, labelHidden := True, labelAttached := False,
       disposed := disposed s @ toDispose, finished := finished s @ [(inputValue s, success)]\<rparr>"
  by (simp add: done'_def once_def doneBody_def Let_def)

lemma done'_again: "didCall s \<Longrightarrow> done' success blur s = s"
  by (simp add: done'_def once_def)

lemma settled_done': "settled s \<Longrightarrow> settled (done' success blur s)"
  by (cases "didCall s") (simp_all add: done'_first done'_again settled_def)

lemma settled_fire: "settled s \<Longrightarrow> settled (fire ed e s)"
proof (cases e)
  case (KeyDown k)
  assume "settled s"
  then show ?thesis
    by (simp add: KeyDown onKeyDown_def settled_done')
next
  case Blur
  assume "settled s"
  then show ?thesis by (simp add: Blur onBlur_def settled_done')
next
  case (SetValue v)
  assume "settled s"
  then show ?thesis by (simp add: SetValue settled_def)
qed

lemma settled_run: "settled s \<Longrightarrow> settled (run ed events s)"
  unfolding run_def by (induction events arbitrary: s) (simp_all add: settled_fire)

lemma settled_renderInputBox: "settled (renderInputBox stat)"
  by (simp add: settled_def renderInputBox_def)

lemma run_append: "run ed (xs @ ys) s = run ed ys (run ed xs s)"
  by (simp add: run_def)

text \<open>Once completed, a session ignores every event but a change of the text.\<close>

lemma fire_frozen:
  "didCall s \<Longrightarrow>
   didCall (fire ed e s) \<and> finished (fire ed e s) = finished s \<and> disposed (fire ed e s) = disposed s"
  by (cases e) (simp_all add: onKeyDown_def onBlur_def done'_again)

lemma run_frozen:
  "didCall s \<Longrightarrow>
   didCall (run ed events s) \<and> finished (run ed events s) = finished s \<and>
   disposed (run ed events s) = disposed s"
  unfolding run_def
proof (induction events arbitrary: s)
  case Nil
  then show ?case by simp
next
  case (Cons e es)
  from fire_frozen [OF Cons.prems, of ed e]
  show ?case using Cons.IH [of "fire ed e s"] by simp
qed

lemma fire_trigger: "e = KeyDown Escape \<or> e = Blur \<Longrightarrow> didCall (fire ed e s)"
  by (cases "didCall s") (auto simp: onKeyDown_def onBlur_def done'_first done'_again)

lemma run_trigger:
  assumes "KeyDown Escape \<in> set events \<or> Blur \<in> set events"
  shows "didCall (run ed events s)"
proof -
  from assms obtain e where e: "e \<in> set events" "e = KeyDown Escape \<or> e = Blur"
    by blast
  then obtain xs ys where "events = xs @ e # ys"
    by (meson split_list)
  then have "run ed events s = run ed ys (fire ed e (run ed xs s))"
    by (simp add: run_def)
  with run_frozen [OF fire_trigger [OF e(2)], of ed ys ed "run ed xs s"]
  show ?thesis by simp
qed

text \<open>
  Claim C7. Whatever events an edit session created by \<open>renderInputBox\<close> sees, and in
  whatever order, \<^verbatim>\<open>onFinish\<close> is called at most once; it has been called exactly once as
  soon as the once-guarded continuation has run, which an Escape key or a loss of focus
  always brings about; the input box, the key-down listener, the blur listener, the label
  and the styler, these five and in this order, are disposed in the very step that calls
  \<^verbatim>\<open>onFinish\<close> and not before; and no later event adds a call or a disposal.
\<close>

theorem onFinish_once:
  "length (finished (run ed events (renderInputBox stat))) \<le> 1 \<and>
   length (finished (run ed events (renderInputBox stat))) =
     (if didCall (run ed events (renderInputBox stat)) then 1 else 0) \<and>
   disposed (run ed events (renderInputBox stat)) =
     (if finished (run ed events (renderInputBox stat)) = [] then []
      else [InputBoxD, KeyDownListenerD, BlurListenerD, LabelD, StylerD]) \<and>
   (KeyDown Escape \<in> set events \<or> Blur \<in> set events \<longrightarrow>
      length (finished (run ed events (renderInputBox stat))) = 1) \<and>
   (finished (run ed events (renderInputBox stat)) \<noteq> [] \<longrightarrow>
      finished (run ed (events @ later) (renderInputBox stat)) =
        finished (run ed events (renderInputBox stat)) \<and>
      disposed (run ed (events @ later) (renderInputBox stat)) =
        [InputBoxD, KeyDownListenerD, BlurListenerD, LabelD, StylerD])"
proof -
  let ?s = "run ed events (renderInputBox stat)"
  have st: "settled ?s"
    by (rule settled_run [OF settled_renderInputBox])
  have trig: "KeyDown Escape \<in> set events \<or> Blur \<in> set events \<Longrightarrow> didCall ?s"
    by (rule run_trigger)
  have frozen: "didCall ?s \<Longrightarrow>
      finished (run ed (events @ later) (renderInputBox stat)) = finished ?s \<and>
      disposed (run ed (events @ later) (renderInputBox stat)) = disposed ?s"
    using run_frozen [of ?s ed later] by (simp add: run_append)
  from st trig frozen show ?thesis
    by (cases "didCall ?s") (auto simp: settled_def toDispose_def)
qed

text \<open>
  Renaming \<^verbatim>\<open>c.md\<close>: Enter on an empty name, then Escape, a loss of focus and Enter
  again; a session that sees no trigger; and Enter on a valid name followed by two more
  triggers.
\<close>

theorem onFinish_once_witness:
  "finished (run sampleEditable [SetValue [], KeyDown Enter, KeyDown Escape, Blur, KeyDown Enter]
      (renderInputBox sampleFileC)) = [([], False)] \<and>
   disposed (run sampleEditable [SetValue [], KeyDown Enter, KeyDown Escape, Blur, KeyDown Enter]
      (renderInputBox sampleFileC)) =
     [InputBoxD, KeyDownListenerD, BlurListenerD, LabelD, StylerD] \<and>
   finished (run sampleEditable [SetValue [], KeyDown Enter, KeyDown OtherKey]
      (renderInputBox sampleFileC)) = [] \<and>
   disposed (run sampleEditable [SetValue [], KeyDown Enter, KeyDown OtherKey]
      (renderInputBox sampleFileC)) = [] \<and>
   finished (run sampleEditable ([KeyDown Enter] @ [Blur, KeyDown Escape])
      (renderInputBox sampleFileC)) = [(''c.md'', True)]"
  using onFinish_once [of sampleEditable "[SetValue [], KeyDown Enter, KeyDown Escape, Blur, KeyDown Enter]" sampleFileC "[]"]
    onFinish_once [of sampleEditable "[SetValue [], KeyDown Enter, KeyDown OtherKey]" sampleFileC "[]"]
    onFinish_once [of sampleEditable "[KeyDown Enter]" sampleFileC "[Blur, KeyDown Escape]"]
  by (simp add: sample_defs run_def renderInputBox_def onKeyDown_def onBlur_def validate_def
      isInputValid_def validation_def truthy_def done'_def once_def doneBody_def toDispose_def)

text \<open>
  Claim C8. In a session that has not completed yet: Enter calls \<^verbatim>\<open>onFinish\<close> with
  success \<open>True\<close> when the current text validates and changes nothing when it does not;
  Escape calls \<^verbatim>\<open>onFinish\<close> with success \<open>False\<close>, valid text or not; a loss of focus
  calls \<^verbatim>\<open>onFinish\<close> with success equal to the validity of the current text. Each call
  passes the current text.
\<close>

theorem commit_triggers:
  assumes "\<not> didCall s"
  shows "finished (onKeyDown ed Enter s) =
           finished s @ (if validate ed s then [(inputValue s, True)] else []) \<and>
         (\<not> validate ed s \<longrightarrow> onKeyDown ed Enter s = s) \<and>
         finished (onKeyDown ed Escape s) = finished s @ [(inputValue s, False)] \<and>
         finished (onBlur ed s) = finished s @ [(inputValue s, isInputValid ed s)]"
  using assms by (simp add: onKeyDown_def onBlur_def done'_first)

text \<open>The four triggers on the name \<^verbatim>\<open>c.md\<close> and on the empty name.\<close>

theorem commit_triggers_witness:
  "\<not> didCall (renderInputBox sampleFileC) \<and>
   finished (onKeyDown sampleEditable Enter (renderInputBox sampleFileC)) = [(''c.md'', True)] \<and>
   \<not> validate sampleEditable (renderInputBox sampleFileC\<lparr>inputValue := []\<rparr>) \<and>
   onKeyDown sampleEditable Enter (renderInputBox sampleFileC\<lparr>inputValue := []\<rparr>) =
     renderInputBox sampleFileC\<lparr>inputValue := []\<rparr> \<and>
   finished (onKeyDown sampleEditable Escape (renderInputBox sampleFileC)) = [(''c.md'', False)] \<and>
   finished (onKeyDown sampleEditable Escape (renderInputBox sampleFileC\<lparr>inputValue := []\<rparr>)) = [([], False)] \<and>
   finished (onBlur sampleEditable (renderInputBox sampleFileC)) = [(''c.md'', True)] \<and>
   finished (onBlur sampleEditable (renderInputBox sampleFileC\<lparr>inputValue := []\<rparr>)) = [([], False)]"
  using commit_triggers [of "renderInputBox sampleFileC" sampleEditable]
    commit_triggers [of "renderInputBox sampleFileC\<lparr>inputValue := []\<rparr>" sampleEditable]
  by (simp add: sample_defs renderInputBox_def validate_def isInputValid_def validation_def truthy_def)

end
